theory Spec2Isabelle
  imports Main "HOL-Library.Sublist" "HOL-Library.Log_Nat"
begin

section \<open>JavaScript numbers\<close>

text \<open>
  A JavaScript number is an IEEE 754 binary64 value: NaN, an infinity, or a finite value,
  carried here by the rational it denotes. Every arithmetic operation computes the exact
  result and rounds it to the nearest binary64 value, ties to even (\<open>round_double\<close>):
  53 significant bits, exponents down to the subnormal spacing \<open>2^-1074\<close>, overflow to
  an infinity from \<open>2^1024\<close> on. The sign of zero is not tracked (a zero is \<open>+0\<close>).
\<close>

datatype jsnum = NaN | PosInf | NegInf | Fin rat

definition pow2 :: "int \<Rightarrow> rat" where
  "pow2 e = (if 0 \<le> e then 2 ^ nat e else 1 / 2 ^ nat (- e))"

text \<open>
  For \<open>a > 0\<close>: \<open>ilog2 a\<close> is the exponent \<open>e\<close> with \<open>2^e \<le> a < 2^(e+1)\<close>;
  \<open>quantum a\<close> is the exponent of the spacing of the binary64 values around \<open>a\<close>;
  \<open>round_mag a\<close> is the multiple of that spacing nearest to \<open>a\<close>, the even one of
  two that are equally near.
\<close>

definition ilog2 :: "rat \<Rightarrow> int" where
  "ilog2 a = (if 1 \<le> a then bitlen \<lfloor>a\<rfloor> - 1
              else if a = pow2 (1 - bitlen \<lfloor>1 / a\<rfloor>) then 1 - bitlen \<lfloor>1 / a\<rfloor>
              else - bitlen \<lfloor>1 / a\<rfloor>)"

definition round_half_even :: "rat \<Rightarrow> int" where
  "round_half_even x =
     (if x - of_int \<lfloor>x\<rfloor> < 1 / 2 then \<lfloor>x\<rfloor>
      else if 1 / 2 < x - of_int \<lfloor>x\<rfloor> then \<lfloor>x\<rfloor> + 1
      else if even \<lfloor>x\<rfloor> then \<lfloor>x\<rfloor> else \<lfloor>x\<rfloor> + 1)"

definition quantum :: "rat \<Rightarrow> int" where
  "quantum a = max (ilog2 a - 52) (- 1074)"

definition round_mag :: "rat \<Rightarrow> rat" where
  "round_mag a = of_int (round_half_even (a / pow2 (quantum a))) * pow2 (quantum a)"

definition round_double :: "rat \<Rightarrow> jsnum" where
  "round_double r =
     (if r = 0 then Fin 0
      else if pow2 1024 \<le> round_mag \<bar>r\<bar> then (if 0 < r then PosInf else NegInf)
      else Fin (if 0 < r then round_mag \<bar>r\<bar> else - round_mag \<bar>r\<bar>))"

fun jsneg :: "jsnum \<Rightarrow> jsnum" where
  "jsneg NaN = NaN"
| "jsneg PosInf = NegInf"
| "jsneg NegInf = PosInf"
| "jsneg (Fin a) = Fin (- a)"

fun jsadd :: "jsnum \<Rightarrow> jsnum \<Rightarrow> jsnum" where
  "jsadd (Fin a) (Fin b) = round_double (a + b)"
| "jsadd NaN y = NaN"
| "jsadd x NaN = NaN"
| "jsadd PosInf NegInf = NaN"
| "jsadd NegInf PosInf = NaN"
| "jsadd PosInf y = PosInf"
| "jsadd NegInf y = NegInf"
| "jsadd (Fin a) y = y"

definition jssub :: "jsnum \<Rightarrow> jsnum \<Rightarrow> jsnum" where
  "jssub x y = jsadd x (jsneg y)"

text \<open>The infinity with the sign of \<open>a\<close> when \<open>pos\<close>, the opposite one otherwise.\<close>

definition signed_inf :: "bool \<Rightarrow> rat \<Rightarrow> jsnum" where
  "signed_inf pos a = (if (0 < a) = pos then PosInf else NegInf)"

fun jsmul :: "jsnum \<Rightarrow> jsnum \<Rightarrow> jsnum" where
  "jsmul (Fin a) (Fin b) = round_double (a * b)"
| "jsmul NaN y = NaN"
| "jsmul x NaN = NaN"
| "jsmul PosInf (Fin b) = (if b = 0 then NaN else signed_inf True b)"
| "jsmul NegInf (Fin b) = (if b = 0 then NaN else signed_inf False b)"
| "jsmul (Fin a) PosInf = (if a = 0 then NaN else signed_inf True a)"
| "jsmul (Fin a) NegInf = (if a = 0 then NaN else signed_inf False a)"
| "jsmul PosInf PosInf = PosInf"
| "jsmul NegInf NegInf = PosInf"
| "jsmul PosInf NegInf = NegInf"
| "jsmul NegInf PosInf = NegInf"

fun jsdiv :: "jsnum \<Rightarrow> jsnum \<Rightarrow> jsnum" where
  "jsdiv (Fin a) (Fin b) =
     (if b = 0 then (if a = 0 then NaN else signed_inf True a) else round_double (a / b))"
| "jsdiv NaN y = NaN"
| "jsdiv x NaN = NaN"
| "jsdiv PosInf (Fin b) = (if 0 \<le> b then PosInf else NegInf)"
| "jsdiv NegInf (Fin b) = (if 0 \<le> b then NegInf else PosInf)"
| "jsdiv (Fin a) y = Fin 0"
| "jsdiv x y = NaN"






text \<open>The comparison \<open>x >= y\<close>: false as soon as an operand is NaN.\<close>

fun jsge :: "jsnum \<Rightarrow> jsnum \<Rightarrow> bool" where
  "jsge (Fin a) (Fin b) = (b \<le> a)"
| "jsge NaN y = False"
| "jsge x NaN = False"
| "jsge PosInf y = True"
| "jsge x NegInf = True"
| "jsge x y = False"

text \<open>\<open>x || 0\<close> on a number: NaN and zero are falsy.\<close>

fun jsOrZero :: "jsnum \<Rightarrow> jsnum" where
  "jsOrZero NaN = Fin 0"
| "jsOrZero x = x"

text \<open>The literal \<open>0.1\<close> denotes the binary64 value nearest to one tenth.\<close>

definition lit_0_1 :: jsnum where
  "lit_0_1 = round_double (1 / 10)"

section \<open>JavaScript strings\<close>

text \<open>
  Strings are lists of code units; the character type has 256 values, so the model covers
  strings whose code units lie below 256. \<open>String.prototype.includes\<close> is the
  substring test.
\<close>

fun str_includes :: "string \<Rightarrow> string \<Rightarrow> bool" where
  "str_includes [] pat = (pat = [])"
| "str_includes (c # cs) pat = (prefix pat (c # cs) \<or> str_includes cs pat)"

text \<open>
  \<open>toLowerCase\<close> maps the letters A to Z and leaves every other code unit as it is:
  it is exact on ASCII text, and a message with other capital letters is outside the
  model. \<open>trim\<close> strips white space and line terminators from both ends (the code
  units 9 to 13, 32 and 160 among those below 256).
\<close>

definition toLowerChar :: "char \<Rightarrow> char" where
  "toLowerChar c =
     (case map_of (zip ''ABCDEFGHIJKLMNOPQRSTUVWXYZ'' ''abcdefghijklmnopqrstuvwxyz'') c of
        Some l \<Rightarrow> l | None \<Rightarrow> c)"

definition toLowerCase :: "string \<Rightarrow> string" where
  "toLowerCase s = map toLowerChar s"

definition is_ws :: "char \<Rightarrow> bool" where
  "is_ws c \<longleftrightarrow> (of_char c :: nat) \<in> {9, 10, 11, 12, 13, 32, 160}"

definition trim :: "string \<Rightarrow> string" where
  "trim s = rev (dropWhile is_ws (rev (dropWhile is_ws s)))"


definition digit_char :: "nat \<Rightarrow> char" where
  "digit_char d = ''0123456789'' ! d"

fun digits10 :: "nat \<Rightarrow> string" where
  "digits10 n = (if n < 10 then [digit_char n] else digits10 (n div 10) @ [digit_char (n mod 10)])"


section \<open>The time formatter\<close>


section \<open>The voice studio: requests over the channel\<close>

text \<open>
  \<^verbatim>\<open>src/unnamed/part_000\<close>. The component state that the request path reads and
  writes: the text box, the selected character, the generating flag, the last result and
  the socket. Of a result the model keeps the strings; the emotion data, which the
  player never sees, is left out. \<open>ws\<close> is \<open>None\<close> for \<open>null\<close> and otherwise carries
  the socket's \<open>readyState\<close>. \<open>sent\<close> lists the objects handed to \<open>ws.send\<close> (before
  \<open>JSON.stringify\<close>), each as its key/value pairs in order; \<open>alerts\<close> lists the
  messages shown by \<open>alert\<close>.
\<close>

datatype readyState = CONNECTING | OPEN | CLOSING | CLOSED

type_synonym json_object = "(string \<times> string) list"

record voice_result =
  audio_url :: string
  character_id :: string
  result_text :: string

record studio =
  inputText :: string
  selectedCharacter :: string
  isGenerating :: bool
  lastResult :: "voice_result option"
  ws :: "readyState option"
  sent :: "json_object list"
  alerts :: "string list"

text \<open>
  Lines 115-139. When the socket is open \<open>ws.send\<close> does not throw, so the
  \<open>catch\<close> branch is not taken.
  \<^verbatim>\<open>
  const generateSpeech = async () => {
    if (!text.trim()) { alert('Please enter some text first!'); return; }
    if (!ws || ws.readyState !== WebSocket.OPEN) {
      alert('WebSocket connection is not available. Please refresh the page.'); return; }
    setIsGenerating(true);
    try {
      ws.send(JSON.stringify({ type: 'voice_request', text: text.trim(),
                               character_id: selectedCharacter }));
    } catch (error) { ... }
  };
  \<close>
\<close>

definition generateSpeech :: "studio \<Rightarrow> studio" where
  "generateSpeech s =
     (if trim (inputText s) = [] then
        s\<lparr>alerts := alerts s @ [''Please enter some text first!'']\<rparr>
      else if ws s \<noteq> Some OPEN then
        s\<lparr>alerts := alerts s @
            [''WebSocket connection is not available. Please refresh the page.'']\<rparr>
      else
        s\<lparr>isGenerating := True,
          sent := sent s @
            [[(''type'', ''voice_request''), (''text'', trim (inputText s)),
              (''character_id'', selectedCharacter s)]]\<rparr>)"

text \<open>
  Lines 168-178, the only other place that sends:
  \<^verbatim>\<open>
  const handleCharacterChange = (characterId: string) => {
    setSelectedCharacter(characterId);
    if (ws && ws.readyState === WebSocket.OPEN) {
      ws.send(JSON.stringify({ type: 'character_switch', character_id: characterId }));
    }
  };
  \<close>
\<close>

definition handleCharacterChange :: "string \<Rightarrow> studio \<Rightarrow> studio" where
  "handleCharacterChange characterId s =
     (let s1 = s\<lparr>selectedCharacter := characterId\<rparr>
      in if ws s = Some OPEN then
           s1\<lparr>sent := sent s @ [[(''type'', ''character_switch''), (''character_id'', characterId)]]\<rparr>
         else s1)"

text \<open>
  The remaining handlers of the component, none of which sends: the text box and the
  quick actions (\<open>setText\<close>), the socket callbacks of lines 49-82 (a message that is a
  \<open>voice_response\<close> becomes the last result), and the initial state of lines 36-42.
\<close>

definition setText :: "string \<Rightarrow> studio \<Rightarrow> studio" where
  "setText v s = s\<lparr>inputText := v\<rparr>"

definition onopen :: "studio \<Rightarrow> studio" where
  "onopen s = s\<lparr>ws := Some OPEN\<rparr>"

definition onVoiceResponse :: "voice_result \<Rightarrow> studio \<Rightarrow> studio" where
  "onVoiceResponse r s = s\<lparr>lastResult := Some r, isGenerating := False\<rparr>"

definition onerror :: "studio \<Rightarrow> studio" where
  "onerror s = s\<lparr>isGenerating := False\<rparr>"

definition onclose :: "studio \<Rightarrow> studio" where
  "onclose s = s\<lparr>ws := map_option (\<lambda>_. CLOSED) (ws s), isGenerating := False\<rparr>"

definition studio_init :: studio where
  "studio_init = \<lparr>inputText = [], selectedCharacter = ''narrator'', isGenerating = False,
     lastResult = None, ws = None, sent = [], alerts = []\<rparr>"

datatype studio_event =
  SetText string | GenerateSpeech | CharacterChange string
  | SocketOpen | VoiceResponse voice_result | SocketError | SocketClose

fun studio_step :: "studio \<Rightarrow> studio_event \<Rightarrow> studio" where
  "studio_step s (SetText v) = setText v s"
| "studio_step s GenerateSpeech = generateSpeech s"
| "studio_step s (CharacterChange c) = handleCharacterChange c s"
| "studio_step s SocketOpen = onopen s"
| "studio_step s (VoiceResponse r) = onVoiceResponse r s"
| "studio_step s SocketError = onerror s"
| "studio_step s SocketClose = onclose s"

definition studio_run :: "studio_event list \<Rightarrow> studio" where
  "studio_run es = foldl studio_step studio_init es"

text \<open>
  A well-formed request object: exactly the keys \<open>type\<close>, \<open>text\<close> and
  \<open>character_id\<close>, with a text that trimming leaves unchanged and non-empty.
\<close>

definition is_voice_request :: "json_object \<Rightarrow> bool" where
  "is_voice_request m \<longleftrightarrow> map_of m ''type'' = Some ''voice_request''"

definition well_formed_request :: "json_object \<Rightarrow> bool" where
  "well_formed_request m \<longleftrightarrow>
     map fst m = [''type'', ''text'', ''character_id''] \<and>
     map_of m ''type'' = Some ''voice_request'' \<and>
     (case map_of m ''text'' of Some t \<Rightarrow> t \<noteq> [] \<and> trim t = t | None \<Rightarrow> False)"

definition requests_well_formed :: "studio \<Rightarrow> bool" where
  "requests_well_formed s \<longleftrightarrow> list_all (\<lambda>m. is_voice_request m \<longrightarrow> well_formed_request m) (sent s)"

section \<open>Fallback recognition in the two players\<close>

text \<open>
  \<^verbatim>\<open>src/unnamed/part_001\<close>, lines 51-56:
  \<^verbatim>\<open>
  const isPlaceholderUrl = (url: string) => {
    return url.includes('placeholder_') || url.includes('mock-audio') ||
           url.includes('error_placeholder') || url.includes('fallback_');
  };
  \<close>
\<close>

definition isPlaceholderUrl :: "string \<Rightarrow> bool" where
  "isPlaceholderUrl url \<longleftrightarrow>
     str_includes url ''placeholder_'' \<or> str_includes url ''mock-audio'' \<or>
     str_includes url ''error_placeholder'' \<or> str_includes url ''fallback_''"

text \<open>
  \<^verbatim>\<open>src/frontend/src/components/AudioPlayer.tsx\<close>, line 166 (and line 37, the same test):
  \<^verbatim>\<open>
  const isMockUrl = audioUrl.includes('mock-audio-service.com') || audioUrl.includes('placeholder_');
  \<close>
\<close>

definition isMockUrl :: "string \<Rightarrow> bool" where
  "isMockUrl audioUrl \<longleftrightarrow>
     str_includes audioUrl ''mock-audio-service.com'' \<or> str_includes audioUrl ''placeholder_''"

section \<open>The audio player (\<^verbatim>\<open>src/unnamed/part_001\<close>)\<close>

text \<open>
  Line 58: \<^verbatim>\<open>url.includes('murf.ai') || url.includes('amazonaws.com')\<close>.
\<close>

definition isMurfUrl :: "string \<Rightarrow> bool" where
  "isMurfUrl url \<longleftrightarrow> str_includes url ''murf.ai'' \<or> str_includes url ''amazonaws.com''"

text \<open>
  The \<open>audio\<close> element behind \<open>audioRef\<close>, with the properties the component
  writes. What the component only reads from it (\<open>readyState\<close>, \<open>error\<close>, \<open>duration\<close>,
  the outcome of \<open>play()\<close>) is decided by the browser and reaches the handlers as
  parameters.
\<close>

record media =
  m_src :: string
  m_crossOrigin :: "string option"
  m_paused :: bool
  m_currentTime :: jsnum
  m_volume :: jsnum

text \<open>
  What the browser answers: to the \<open>HEAD\<close> probe of \<open>testAudioUrl\<close>, to the wait
  for the media to load (ready, the 10 s timeout, or an \<open>error\<close> event with the element's
  \<open>MediaError\<close> code and message, if any), and to \<open>play()\<close>. A thrown value is an
  \<open>Error\<close> with its name and message, or something else.
\<close>

datatype fetch_result = FetchOk | FetchStatus nat | FetchThrew

datatype load_result = CanPlay | LoadTimeout | LoadError "(nat \<times> string) option"

datatype thrown = JsError string string | NonError

datatype play_result = PlayResolved | PlayRejected thrown

datatype net_event = FetchHead string | MediaLoad string

text \<open>
  The component: its two props, its state variables (lines 9-15), its three refs (lines
  16-18), and the part of the browser it acts on. \<open>intervals\<close> is the browser's table
  of running \<open>setInterval\<close> timers, each with the \<open>progress\<close> variable its callback
  closes over; \<open>network\<close> logs the requests the component has caused.
  \<open>playPromiseRef\<close> tells whether the ref holds a promise. Timer handles are positive,
  so the test \<open>if (simulationIntervalRef.current)\<close> is the test for \<open>null\<close>.
\<close>

record player =
  audioUrl :: "string option"
  isLoading :: bool
  isPlaying :: bool
  duration :: jsnum
  currentTime :: jsnum
  audioError :: "string option"
  isLoadingAudio :: bool
  audioTested :: bool
  volume :: jsnum
  audioRef :: "media option"
  playPromiseRef :: bool
  simulationIntervalRef :: "nat option"
  intervals :: "(nat \<times> jsnum) list"
  nextTimer :: nat
  network :: "net_event list"

definition player_init :: player where
  "player_init = \<lparr>audioUrl = None, isLoading = False, isPlaying = False, duration = Fin 0,
     currentTime = Fin 0, audioError = None, isLoadingAudio = False, audioTested = False,
     volume = Fin 1, audioRef = None, playPromiseRef = False, simulationIntervalRef = None,
     intervals = [], nextTimer = 1, network = []\<rparr>"

text \<open>\<open>!audioUrl\<close> holds for \<open>undefined\<close> and for the empty string.\<close>

definition url_truthy :: "string option \<Rightarrow> bool" where
  "url_truthy u = (case u of None \<Rightarrow> False | Some v \<Rightarrow> v \<noteq> [])"

definition url_or_empty :: "string option \<Rightarrow> string" where
  "url_or_empty u = (case u of None \<Rightarrow> [] | Some v \<Rightarrow> v)"

definition clearInterval :: "nat \<Rightarrow> player \<Rightarrow> player" where
  "clearInterval t s = s\<lparr>intervals := filter (\<lambda>(i, p). i \<noteq> t) (intervals s)\<rparr>"

text \<open>
  Rendering (lines 349-369 and 490-506): the spinner while \<open>isLoading\<close>, the empty box
  without a URL, and otherwise the controls, with the \<open>audio\<close> element only for a URL
  that is not a placeholder. A newly mounted element is paused at position 0 and starts
  fetching its metadata (\<open>preload="metadata"\<close>); an element that stays mounted keeps its
  state; an element that is not rendered leaves \<open>audioRef.current\<close> null.
\<close>

definition new_media :: "string \<Rightarrow> media" where
  "new_media url = \<lparr>m_src = [], m_crossOrigin = (if isMurfUrl url then Some ''anonymous'' else None),
     m_paused = True, m_currentTime = Fin 0, m_volume = Fin 1\<rparr>"

definition render_audio :: "player \<Rightarrow> player" where
  "render_audio s =
     (if \<not> isLoading s \<and> url_truthy (audioUrl s) \<and> \<not> isPlaceholderUrl (url_or_empty (audioUrl s))
      then (case audioRef s of
              Some m \<Rightarrow> s
            | None \<Rightarrow> s\<lparr>audioRef := Some (new_media (url_or_empty (audioUrl s))),
                       network := network s @ [MediaLoad (url_or_empty (audioUrl s))]\<rparr>)
      else s\<lparr>audioRef := None\<rparr>)"

text \<open>
  Lines 21-42, the effect that runs when \<open>audioUrl\<close> changes:
  \<^verbatim>\<open>
  useEffect(() => {
    setIsPlaying(false); setCurrentTime(0); setDuration(0);
    setAudioError(null); setAudioTested(false); setIsLoadingAudio(false);
    if (simulationIntervalRef.current) {
      clearInterval(simulationIntervalRef.current);
      simulationIntervalRef.current = null;
    }
    playPromiseRef.current = null;
    if (audioRef.current) { audioRef.current.pause(); audioRef.current.currentTime = 0; }
  }, [audioUrl]);
  \<close>
\<close>

definition clearSimulation :: "player \<Rightarrow> player" where
  "clearSimulation s =
     (case simulationIntervalRef s of
        Some t \<Rightarrow> (clearInterval t s)\<lparr>simulationIntervalRef := None\<rparr>
      | None \<Rightarrow> s)"

definition resetOnUrlChange :: "player \<Rightarrow> player" where
  "resetOnUrlChange s =
     (let s1 = s\<lparr>isPlaying := False, currentTime := Fin 0, duration := Fin 0, audioError := None,
                 audioTested := False, isLoadingAudio := False\<rparr>;
          s2 = clearSimulation s1;
          s3 = s2\<lparr>playPromiseRef := False\<rparr>
      in case audioRef s3 of
           Some m \<Rightarrow> s3\<lparr>audioRef := Some (m\<lparr>m_paused := True, m_currentTime := Fin 0\<rparr>)\<rparr>
         | None \<Rightarrow> s3)"

text \<open>
  Lines 45-49 and 62-80, the accessibility probe:
  \<^verbatim>\<open>
  if (audioUrl && !audioTested && !isPlaceholderUrl(audioUrl)) testAudioUrl(audioUrl);

  if (isMurfUrl(url)) { setAudioTested(true); return; }
  const response = await fetch(url, { method: 'HEAD' });
  if (!response.ok) setAudioError(`Audio file not accessible (${response.status})`);
  setAudioTested(true);                      // also in the catch branch
  \<close>
\<close>

definition testAudioUrl :: "string \<Rightarrow> fetch_result \<Rightarrow> player \<Rightarrow> player" where
  "testAudioUrl url fr s =
     (if isMurfUrl url then s\<lparr>audioTested := True\<rparr>
      else let s1 = s\<lparr>network := network s @ [FetchHead url]\<rparr>
           in case fr of
                FetchOk \<Rightarrow> s1\<lparr>audioTested := True\<rparr>
              | FetchStatus status \<Rightarrow>
                  s1\<lparr>audioError := Some (''Audio file not accessible ('' @ digits10 status @ '')''),
                     audioTested := True\<rparr>
              | FetchThrew \<Rightarrow> s1\<lparr>audioTested := True\<rparr>)"

definition testEffect :: "fetch_result \<Rightarrow> player \<Rightarrow> player" where
  "testEffect fr s =
     (if url_truthy (audioUrl s) \<and> \<not> audioTested s \<and> \<not> isPlaceholderUrl (url_or_empty (audioUrl s))
      then testAudioUrl (url_or_empty (audioUrl s)) fr s else s)"

text \<open>
  New props from the parent: the component renders, then the effects run, the reset only
  when \<open>audioUrl\<close> is not the one of the previous render.
\<close>

definition setProps :: "string option \<Rightarrow> bool \<Rightarrow> fetch_result \<Rightarrow> player \<Rightarrow> player" where
  "setProps url loading fr s =
     (let s1 = render_audio (s\<lparr>audioUrl := url, isLoading := loading\<rparr>);
          s2 = (if url \<noteq> audioUrl s then resetOnUrlChange s1 else s1)
      in testEffect fr s2)"

text \<open>
  Lines 82-109, the simulated playback. The callback of the interval is \<open>tick\<close>; it runs
  only for a timer that is still in the browser's table.
  \<^verbatim>\<open>
  const playPlaceholderAudio = useCallback(async () => {
    if (!audioUrl) return;
    setIsLoadingAudio(false); setIsPlaying(true); setDuration(5);
    if (simulationIntervalRef.current) clearInterval(simulationIntervalRef.current);
    let progress = 0;
    simulationIntervalRef.current = setInterval(() => {
      progress += 0.1;
      setCurrentTime(progress);
      if (progress >= 5) {
        setIsPlaying(false); setCurrentTime(0);
        if (simulationIntervalRef.current) {
          clearInterval(simulationIntervalRef.current);
          simulationIntervalRef.current = null;
        }
      }
    }, 100);
  }, [audioUrl]);
  \<close>
\<close>

definition playPlaceholderAudio :: "player \<Rightarrow> player" where
  "playPlaceholderAudio s =
     (if \<not> url_truthy (audioUrl s) then s
      else let s1 = s\<lparr>isLoadingAudio := False, isPlaying := True, duration := Fin 5\<rparr>;
               s2 = (case simulationIntervalRef s1 of Some t \<Rightarrow> clearInterval t s1 | None \<Rightarrow> s1)
           in s2\<lparr>intervals := intervals s2 @ [(nextTimer s2, Fin 0)],
                simulationIntervalRef := Some (nextTimer s2),
                nextTimer := Suc (nextTimer s2)\<rparr>)"

definition tick :: "nat \<Rightarrow> player \<Rightarrow> player" where
  "tick t s =
     (case map_of (intervals s) t of
        None \<Rightarrow> s
      | Some progress0 \<Rightarrow>
          let progress = jsadd progress0 lit_0_1;
              s1 = s\<lparr>intervals := map (\<lambda>(i, p). if i = t then (i, progress) else (i, p)) (intervals s),
                     currentTime := progress\<rparr>
          in if jsge progress (Fin 5)
             then clearSimulation (s1\<lparr>isPlaying := False, currentTime := Fin 0\<rparr>)
             else s1)"

text \<open>
  Lines 111-136. The awaited promise is the pending \<open>play()\<close>, if any.
  \<^verbatim>\<open>
  const stopCurrentPlayback = useCallback(async () => {
    if (simulationIntervalRef.current) {
      clearInterval(simulationIntervalRef.current); simulationIntervalRef.current = null; }
    if (audioRef.current) {
      if (playPromiseRef.current) {
        try { await playPromiseRef.current; } catch (e) { }
        playPromiseRef.current = null;
      }
      if (!audioRef.current.paused) audioRef.current.pause();
      audioRef.current.currentTime = 0;
    }
    setIsPlaying(false); setCurrentTime(0);
  }, []);
  \<close>
\<close>

definition stopCurrentPlayback :: "player \<Rightarrow> player" where
  "stopCurrentPlayback s =
     (let s1 = clearSimulation s;
          s2 = (case audioRef s1 of
                  Some m \<Rightarrow> s1\<lparr>playPromiseRef := False,
                              audioRef := Some (m\<lparr>m_paused := True, m_currentTime := Fin 0\<rparr>)\<rparr>
                | None \<Rightarrow> s1)
      in s2\<lparr>isPlaying := False, currentTime := Fin 0\<rparr>)"

text \<open>
  Lines 231-258, the \<open>catch\<close> block of \<open>togglePlay\<close>:
  \<^verbatim>\<open>
  setIsLoadingAudio(false); setIsPlaying(false); playPromiseRef.current = null;
  if (error instanceof Error) {
    const errorMessage = error.message.toLowerCase();
    if (errorMessage.includes('interrupted') || errorMessage.includes('aborted'))
      setAudioError('Playback was interrupted. Please try again.');
    else if (errorMessage.includes('cors') || errorMessage.includes('cross-origin'))
      setAudioError('CORS error - audio may still be accessible via direct link');
    else if (errorMessage.includes('timeout'))
      setAudioError('Audio loading timed out - the file may be large or server slow');
    else if (error.name === 'NotSupportedError')
      setAudioError('Audio format not supported by your browser');
    else if (error.name === 'NotAllowedError')
      setAudioError('Audio playback blocked. Click to enable audio');
    else if (errorMessage.includes('network') || errorMessage.includes('fetch'))
      setAudioError('Network error: Unable to load audio file');
    else setAudioError(`Playback failed: ${error.message}`);
  } else setAudioError('Unable to play audio. The file may be temporarily unavailable.');
  \<close>
\<close>

fun catchMessage :: "thrown \<Rightarrow> string" where
  "catchMessage (JsError name message) =
     (let errorMessage = toLowerCase message in
      if str_includes errorMessage ''interrupted'' \<or> str_includes errorMessage ''aborted''
        then ''Playback was interrupted. Please try again.''
      else if str_includes errorMessage ''cors'' \<or> str_includes errorMessage ''cross-origin''
        then ''CORS error - audio may still be accessible via direct link''
      else if str_includes errorMessage ''timeout''
        then ''Audio loading timed out - the file may be large or server slow''
      else if name = ''NotSupportedError''
        then ''Audio format not supported by your browser''
      else if name = ''NotAllowedError''
        then ''Audio playback blocked. Click to enable audio''
      else if str_includes errorMessage ''network'' \<or> str_includes errorMessage ''fetch''
        then ''Network error: Unable to load audio file''
      else ''Playback failed: '' @ message)"
| "catchMessage NonError = ''Unable to play audio. The file may be temporarily unavailable.''"

definition togglePlay_catch :: "thrown \<Rightarrow> player \<Rightarrow> player" where
  "togglePlay_catch err s =
     s\<lparr>isLoadingAudio := False, isPlaying := False, playPromiseRef := False,
       audioError := Some (catchMessage err)\<rparr>"

text \<open>
  The errors that the wait for the media raises (lines 177-206): the timeout rejects with
  \<open>Error('Audio load timeout')\<close>, an \<open>error\<close> event with
  \<open>Error(`Audio load error: ${error.message || 'Unknown error'}`)\<close>, or with
  \<open>Error('Audio failed to load')\<close> when the element has no \<open>MediaError\<close>.
\<close>

fun loadFailure :: "load_result \<Rightarrow> thrown option" where
  "loadFailure CanPlay = None"
| "loadFailure LoadTimeout = Some (JsError ''Error'' ''Audio load timeout'')"
| "loadFailure (LoadError (Some (code, message))) =
     Some (JsError ''Error''
       (''Audio load error: '' @ (if message = [] then ''Unknown error'' else message)))"
| "loadFailure (LoadError None) = Some (JsError ''Error'' ''Audio failed to load'')"

text \<open>
  Lines 138-259, \<open>togglePlay\<close>. Its \<open>await\<close>s are taken in one step, with the
  browser's answers \<open>lr\<close> (loading) and \<open>pr\<close> (\<open>play()\<close>) as parameters. Assigning
  \<open>src\<close> makes the element load the new source.
  \<^verbatim>\<open>
  if (!audioUrl) { setAudioError('No audio URL available'); return; }
  try {
    setAudioError(null);
    if (isPlaceholderUrl(audioUrl)) {
      if (isPlaying) await stopCurrentPlayback(); else await playPlaceholderAudio();
      return;
    }
    if (!audioRef.current) return;
    if (isPlaying) { await stopCurrentPlayback(); return; }
    setIsLoadingAudio(true);
    if (audioRef.current.src !== audioUrl) {
      audioRef.current.src = audioUrl;
      if (isMurfUrl(audioUrl)) audioRef.current.crossOrigin = 'anonymous';
    }
    await Promise.race([loadAudio, loadTimeout]);
    audioRef.current.volume = volume;
    playPromiseRef.current = audioRef.current.play();
    await playPromiseRef.current;
    setIsPlaying(true); setIsLoadingAudio(false); playPromiseRef.current = null;
  } catch (error) { ... }
  \<close>
\<close>

definition assignSrc :: "string \<Rightarrow> media \<Rightarrow> player \<Rightarrow> player" where
  "assignSrc url m s =
     (if m_src m \<noteq> url
      then s\<lparr>audioRef := Some (m\<lparr>m_src := url,
                 m_crossOrigin := (if isMurfUrl url then Some ''anonymous'' else m_crossOrigin m)\<rparr>),
             network := network s @ [MediaLoad url]\<rparr>
      else s)"

definition playReal :: "string \<Rightarrow> media \<Rightarrow> load_result \<Rightarrow> play_result \<Rightarrow> player \<Rightarrow> player" where
  "playReal url m lr pr s =
     (let s1 = assignSrc url m (s\<lparr>isLoadingAudio := True\<rparr>)
      in case loadFailure lr of
           Some err \<Rightarrow> togglePlay_catch err s1
         | None \<Rightarrow>
             let s2 = s1\<lparr>audioRef := map_option (\<lambda>a. a\<lparr>m_volume := volume s1\<rparr>) (audioRef s1),
                        playPromiseRef := True\<rparr>
             in (case pr of
                   PlayRejected err \<Rightarrow> togglePlay_catch err s2
                 | PlayResolved \<Rightarrow>
                     s2\<lparr>audioRef := map_option (\<lambda>a. a\<lparr>m_paused := False\<rparr>) (audioRef s2),
                        isPlaying := True, isLoadingAudio := False, playPromiseRef := False\<rparr>))"

definition togglePlay :: "load_result \<Rightarrow> play_result \<Rightarrow> player \<Rightarrow> player" where
  "togglePlay lr pr s =
     (if \<not> url_truthy (audioUrl s) then s\<lparr>audioError := Some ''No audio URL available''\<rparr>
      else let url = url_or_empty (audioUrl s); s1 = s\<lparr>audioError := None\<rparr>
           in if isPlaceholderUrl url
              then (if isPlaying s then stopCurrentPlayback s1 else playPlaceholderAudio s1)
              else case audioRef s1 of
                     None \<Rightarrow> s1
                   | Some m \<Rightarrow>
                       if isPlaying s then stopCurrentPlayback s1 else playReal url m lr pr s1)"

text \<open>
  Lines 261-313, the handlers of the element's events. The browser has set the
  element's position before \<open>timeupdate\<close>, and paused it before \<open>ended\<close>; the
  metadata carries the duration; \<open>error\<close> carries the element's \<open>MediaError\<close>, if any,
  whose codes are \<open>MEDIA_ERR_ABORTED = 1\<close>, \<open>MEDIA_ERR_NETWORK = 2\<close>,
  \<open>MEDIA_ERR_DECODE = 3\<close> and \<open>MEDIA_ERR_SRC_NOT_SUPPORTED = 4\<close>.
\<close>

definition handleTimeUpdate :: "player \<Rightarrow> player" where
  "handleTimeUpdate s =
     (case audioRef s of
        Some m \<Rightarrow> if isPlaying s then s\<lparr>currentTime := m_currentTime m\<rparr> else s
      | None \<Rightarrow> s)"

definition handleLoadedMetadata :: "jsnum \<Rightarrow> player \<Rightarrow> player" where
  "handleLoadedMetadata d s =
     (case audioRef s of
        Some m \<Rightarrow> s\<lparr>duration := jsOrZero d, audioError := None\<rparr>
      | None \<Rightarrow> s)"

definition handleEnded :: "player \<Rightarrow> player" where
  "handleEnded s = clearSimulation (s\<lparr>isPlaying := False, currentTime := Fin 0, playPromiseRef := False\<rparr>)"

fun audioErrorMessage :: "(nat \<times> string) option \<Rightarrow> string" where
  "audioErrorMessage (Some (code, message)) =
     (if code = 1 then ''Audio loading was aborted''
      else if code = 2 then ''Network error while loading audio - check your connection''
      else if code = 3 then ''Audio file is corrupted or invalid format''
      else if code = 4 then ''Audio format not supported''
      else ''Audio error occurred - file may be temporarily unavailable'')"
| "audioErrorMessage None = ''Audio file could not be loaded''"

definition handleAudioError :: "(nat \<times> string) option \<Rightarrow> player \<Rightarrow> player" where
  "handleAudioError e s =
     s\<lparr>isPlaying := False, isLoadingAudio := False, playPromiseRef := False,
       audioError := Some (audioErrorMessage e)\<rparr>"

text \<open>
  Lines 315-326, with the click's \<open>clientX\<close> and the bar's \<open>left\<close> and \<open>width\<close>:
  \<^verbatim>\<open>
  const handleSeek = (e: React.MouseEvent<HTMLDivElement>) => {
    if (!audioRef.current || duration === 0 || isPlaceholderUrl(audioUrl || '')) return;
    const rect = e.currentTarget.getBoundingClientRect();
    const clickX = e.clientX - rect.left;
    const width = rect.width;
    const percentage = clickX / width;
    const newTime = percentage * duration;
    audioRef.current.currentTime = newTime;
    setCurrentTime(newTime);
  };
  \<close>
\<close>

definition handleSeek :: "jsnum \<Rightarrow> jsnum \<Rightarrow> jsnum \<Rightarrow> player \<Rightarrow> player" where
  "handleSeek clientX left width s =
     (case audioRef s of
        None \<Rightarrow> s
      | Some m \<Rightarrow>
          if duration s = Fin 0 \<or> isPlaceholderUrl (url_or_empty (audioUrl s)) then s
          else let clickX = jssub clientX left;
                   percentage = jsdiv clickX width;
                   newTime = jsmul percentage (duration s)
               in s\<lparr>audioRef := Some (m\<lparr>m_currentTime := newTime\<rparr>), currentTime := newTime\<rparr>)"

text \<open>Lines 328-334, with the parsed value of the slider.\<close>

definition handleVolumeChange :: "jsnum \<Rightarrow> player \<Rightarrow> player" where
  "handleVolumeChange newVolume s =
     s\<lparr>volume := newVolume,
       audioRef := map_option (\<lambda>a. a\<lparr>m_volume := newVolume\<rparr>) (audioRef s)\<rparr>"

text \<open>
  Unmounting: neither effect returns a cleanup function, so nothing of the component
  runs; the element leaves the document and the ref is detached.
\<close>

definition unmount :: "player \<Rightarrow> player" where
  "unmount s = s\<lparr>audioRef := None\<rparr>"

text \<open>Everything that can happen to a mounted player, and a run from the first render.\<close>

datatype player_event =
  SetProps "string option" bool fetch_result
  | TogglePlay load_result play_result
  | Tick nat
  | TimeUpdate jsnum
  | LoadedMetadata jsnum
  | Ended
  | AudioError "(nat \<times> string) option"
  | Seek jsnum jsnum jsnum
  | VolumeChange jsnum

definition mediaAt :: "jsnum \<Rightarrow> player \<Rightarrow> player" where
  "mediaAt pos s = s\<lparr>audioRef := map_option (\<lambda>a. a\<lparr>m_currentTime := pos\<rparr>) (audioRef s)\<rparr>"

definition mediaPause :: "player \<Rightarrow> player" where
  "mediaPause s = s\<lparr>audioRef := map_option (\<lambda>a. a\<lparr>m_paused := True\<rparr>) (audioRef s)\<rparr>"

fun player_step :: "player \<Rightarrow> player_event \<Rightarrow> player" where
  "player_step s (SetProps url loading fr) = setProps url loading fr s"
| "player_step s (TogglePlay lr pr) = togglePlay lr pr s"
| "player_step s (Tick t) = tick t s"
| "player_step s (TimeUpdate pos) = handleTimeUpdate (mediaAt pos s)"
| "player_step s (LoadedMetadata d) = handleLoadedMetadata d s"
| "player_step s Ended = handleEnded (mediaPause s)"
| "player_step s (AudioError e) = handleAudioError e s"
| "player_step s (Seek clientX left width) = handleSeek clientX left width s"
| "player_step s (VolumeChange v) = handleVolumeChange v s"

definition player_run :: "player_event list \<Rightarrow> player" where
  "player_run es = foldl player_step player_init es"

text \<open>
  What drives the elapsed time: a running interval, or the element while it plays.
\<close>

definition mediaPlaying :: "player \<Rightarrow> bool" where
  "mediaPlaying s = (case audioRef s of Some m \<Rightarrow> \<not> m_paused m | None \<Rightarrow> False)"

definition drivers :: "player \<Rightarrow> nat" where
  "drivers s = length (intervals s) + (if mediaPlaying s then 1 else 0)"

text \<open>
  The interval callback run again and again from the value \<open>p\<close> of \<open>progress\<close>:
  the value after \<open>n\<close> callbacks, and whether none of these \<open>n\<close> callbacks meets the
  end test \<open>progress >= 5\<close>.
\<close>

primrec progress_after :: "nat \<Rightarrow> jsnum \<Rightarrow> jsnum" where
  "progress_after 0 p = p"
| "progress_after (Suc n) p = progress_after n (jsadd p lit_0_1)"

primrec keeps_running :: "nat \<Rightarrow> jsnum \<Rightarrow> bool" where
  "keeps_running 0 p = True"
| "keeps_running (Suc n) p =
     (\<not> jsge (jsadd p lit_0_1) (Fin 5) \<and> keeps_running n (jsadd p lit_0_1))"

text \<open>
  The invariant of the player: the browser's running intervals are exactly the one held
  in \<open>simulationIntervalRef\<close>, if any; the element is mounted only for a URL that is
  not a placeholder; an interval runs only for a URL that is a placeholder.
\<close>

definition ref_timers :: "nat option \<Rightarrow> nat list" where
  "ref_timers r = (case r of Some t \<Rightarrow> [t] | None \<Rightarrow> [])"

definition player_inv :: "player \<Rightarrow> bool" where
  "player_inv s \<longleftrightarrow>
     map fst (intervals s) = ref_timers (simulationIntervalRef s) \<and>
     (audioRef s = None \<or>
        url_truthy (audioUrl s) \<and> \<not> isPlaceholderUrl (url_or_empty (audioUrl s))) \<and>
     (intervals s = [] \<or>
        url_truthy (audioUrl s) \<and> isPlaceholderUrl (url_or_empty (audioUrl s)))"

text \<open>
  The reason codes of the specification, read off the messages the two error paths set:
  the messages of the \<open>switch\<close> in \<open>handleAudioError\<close> and of the tests in the
  \<open>catch\<close> block are specific; the messages of the \<open>default\<close> and \<open>else\<close>
  branches name no reason.
\<close>

datatype reason = Aborted | Network | Decode | Unsupported | BlockedByPolicy | Timeout

definition spec_reason :: "string \<Rightarrow> reason option" where
  "spec_reason msg =
     (if msg = ''Audio loading was aborted'' \<or> msg = ''Playback was interrupted. Please try again.''
        then Some Aborted
      else if msg = ''Network error while loading audio - check your connection'' \<or>
              msg = ''Network error: Unable to load audio file''
        then Some Network
      else if msg = ''Audio file is corrupted or invalid format'' then Some Decode
      else if msg = ''Audio format not supported'' \<or>
              msg = ''Audio format not supported by your browser''
        then Some Unsupported
      else if msg = ''Audio playback blocked. Click to enable audio'' \<or>
              msg = ''CORS error - audio may still be accessible via direct link''
        then Some BlockedByPolicy
      else if msg = ''Audio loading timed out - the file may be large or server slow''
        then Some Timeout
      else None)"

section \<open>The earlier audio player (\<^verbatim>\<open>src/frontend/src/components/AudioPlayer.tsx\<close>)\<close>

text \<open>
  The same props, the state variables of lines 9-13 and the one ref of line 14. The
  interval of the mock playback is held in a local variable only; \<open>old_timeouts\<close> lists
  the pending \<open>setTimeout\<close> callbacks, each with the interval it will clear.
\<close>

record old_player =
  old_audioUrl :: "string option"
  old_isLoading :: bool
  old_isPlaying :: bool
  old_duration :: jsnum
  old_currentTime :: jsnum
  old_audioError :: "string option"
  old_isLoadingAudio :: bool
  old_audioRef :: "media option"
  old_intervals :: "(nat \<times> jsnum) list"
  old_timeouts :: "(nat \<times> nat) list"
  old_nextTimer :: nat

definition old_init :: old_player where
  "old_init = \<lparr>old_audioUrl = None, old_isLoading = False, old_isPlaying = False,
     old_duration = Fin 0, old_currentTime = Fin 0, old_audioError = None,
     old_isLoadingAudio = False, old_audioRef = None, old_intervals = [], old_timeouts = [],
     old_nextTimer = 1\<rparr>"

text \<open>
  Rendering (lines 144-164 and 232-246): the \<open>audio\<close> element is rendered only for a URL
  that is not a mock URL.
\<close>

definition old_render_audio :: "old_player \<Rightarrow> old_player" where
  "old_render_audio s =
     (if \<not> old_isLoading s \<and> url_truthy (old_audioUrl s) \<and>
         \<not> isMockUrl (url_or_empty (old_audioUrl s))
      then (case old_audioRef s of
              Some m \<Rightarrow> s
            | None \<Rightarrow> s\<lparr>old_audioRef := Some \<lparr>m_src = [], m_crossOrigin = None, m_paused = True,
                                               m_currentTime = Fin 0, m_volume = Fin 1\<rparr>\<rparr>)
      else s\<lparr>old_audioRef := None\<rparr>)"

text \<open>
  Lines 17-22:
  \<^verbatim>\<open>
  useEffect(() => {
    setIsPlaying(false); setCurrentTime(0); setDuration(0); setAudioError(null);
  }, [audioUrl]);
  \<close>
\<close>

definition old_resetOnUrlChange :: "old_player \<Rightarrow> old_player" where
  "old_resetOnUrlChange s =
     s\<lparr>old_isPlaying := False, old_currentTime := Fin 0, old_duration := Fin 0,
       old_audioError := None\<rparr>"

definition old_setProps :: "string option \<Rightarrow> bool \<Rightarrow> old_player \<Rightarrow> old_player" where
  "old_setProps url loading s =
     (let s1 = old_render_audio (s\<lparr>old_audioUrl := url, old_isLoading := loading\<rparr>)
      in if url \<noteq> old_audioUrl s then old_resetOnUrlChange s1 else s1)"




text \<open>The callback of the mock interval, and the callback of the 10 s timeout.\<close>

definition old_tick :: "nat \<Rightarrow> old_player \<Rightarrow> old_player" where
  "old_tick t s =
     (case map_of (old_intervals s) t of
        None \<Rightarrow> s
      | Some progress0 \<Rightarrow>
          let progress = jsadd progress0 (Fin (1 / 2));
              s1 = s\<lparr>old_intervals :=
                       map (\<lambda>(i, p). if i = t then (i, progress) else (i, p)) (old_intervals s),
                     old_currentTime := progress\<rparr>
          in if jsge progress (Fin 10)
             then s1\<lparr>old_isPlaying := False, old_currentTime := Fin 0,
                     old_intervals := filter (\<lambda>(i, p). i \<noteq> t) (old_intervals s1)\<rparr>
             else s1)"

definition old_timeout :: "nat \<Rightarrow> old_player \<Rightarrow> old_player" where
  "old_timeout k s =
     (case map_of (old_timeouts s) k of
        None \<Rightarrow> s
      | Some interval \<Rightarrow>
          s\<lparr>old_intervals := filter (\<lambda>(i, p). i \<noteq> interval) (old_intervals s),
            old_timeouts := filter (\<lambda>(i, j). i \<noteq> k) (old_timeouts s)\<rparr>)"

text \<open>
  Lines 131-142, \<open>handleSeek\<close>: as in the later player, without the test for a
  placeholder.
\<close>

definition old_handleSeek :: "jsnum \<Rightarrow> jsnum \<Rightarrow> jsnum \<Rightarrow> old_player \<Rightarrow> old_player" where
  "old_handleSeek clientX left width s =
     (case old_audioRef s of
        None \<Rightarrow> s
      | Some m \<Rightarrow>
          if old_duration s = Fin 0 then s
          else let clickX = jssub clientX left;
                   percentage = jsdiv clickX width;
                   newTime = jsmul percentage (old_duration s)
               in s\<lparr>old_audioRef := Some (m\<lparr>m_currentTime := newTime\<rparr>),
                    old_currentTime := newTime\<rparr>)"

section \<open>The studio and its player together\<close>

text \<open>
  \<^verbatim>\<open>src/unnamed/part_000\<close>, lines 295-298: the studio renders the player with
  \<open>audioUrl={lastResult?.audio_url}\<close> and \<open>isLoading={isGenerating}\<close> and hands it
  nothing else. An event of the studio re-renders the player with the new props; an event
  of the player runs the player's handler.
\<close>

record app =
  app_studio :: studio
  app_player :: player

definition app_init :: app where
  "app_init = \<lparr>app_studio = studio_init, app_player = player_init\<rparr>"

definition app_studio_event :: "studio_event \<Rightarrow> fetch_result \<Rightarrow> app \<Rightarrow> app" where
  "app_studio_event e fr a =
     (let st = studio_step (app_studio a) e
      in \<lparr>app_studio = st,
          app_player = setProps (map_option audio_url (lastResult st)) (isGenerating st) fr
                         (app_player a)\<rparr>)"

definition app_player_event :: "player_event \<Rightarrow> app \<Rightarrow> app" where
  "app_player_event e a = a\<lparr>app_player := player_step (app_player a) e\<rparr>"

section \<open>Properties of the string functions\<close>

lemma str_includes_sublist: "str_includes s pat \<longleftrightarrow> sublist pat s"
  by (induction s) (auto simp: sublist_Cons_right)


lemma dropWhile_id: "xs = [] \<or> \<not> P (hd xs) \<Longrightarrow> dropWhile P xs = xs"
  by (cases xs) auto

lemma dropWhile_head: "dropWhile P xs = [] \<or> \<not> P (hd (dropWhile P xs))"
  using hd_dropWhile by blast

lemma last_dropWhile: "dropWhile P xs \<noteq> [] \<Longrightarrow> last (dropWhile P xs) = last xs"
  by (induction xs) (auto split: if_splits)

lemma trim_idem: "trim (trim s) = trim s"
proof -
  define d where "d = dropWhile is_ws s"
  define e where "e = dropWhile is_ws (rev d)"
  have r: "trim s = rev e" by (simp add: trim_def d_def e_def)
  have e_head: "e = [] \<or> \<not> is_ws (hd e)" unfolding e_def by (rule dropWhile_head)
  have "e \<noteq> [] \<Longrightarrow> \<not> is_ws (last e)"
  proof -
    assume ne: "e \<noteq> []"
    then have "last e = last (rev d)" unfolding e_def by (rule last_dropWhile)
    moreover from ne have dne: "d \<noteq> []" unfolding e_def by auto
    ultimately have "last e = hd d" by (simp add: last_rev)
    moreover have "\<not> is_ws (hd d)" using dne dropWhile_head [of is_ws s] unfolding d_def by auto
    ultimately show ?thesis by simp
  qed
  then have "rev e = [] \<or> \<not> is_ws (hd (rev e))" by (cases "e = []") (auto simp: hd_rev)
  then have 1: "dropWhile is_ws (rev e) = rev e" by (rule dropWhile_id)
  have 2: "dropWhile is_ws e = e" using e_head by (rule dropWhile_id)
  show ?thesis unfolding r by (simp add: trim_def 1 2)
qed

section \<open>Evaluating the rounding on numerals\<close>

lemma bitlen_numeral: "bitlen (numeral n) = bitlen (numeral n div 2) + 1"
  by (subst compute_bitlen) simp

lemma bitlen_one: "bitlen 1 = 1"
  by (subst compute_bitlen) simp

lemma floor_rat_numeral_div: "\<lfloor>(numeral a :: rat) / numeral b\<rfloor> = numeral a div numeral b"
  using floor_divide_of_int_eq [of "numeral a" "numeral b", where ?'a = rat] by simp

lemma floor_rat_one_div: "\<lfloor>(1 :: rat) / numeral b\<rfloor> = 1 div numeral b"
  using floor_divide_of_int_eq [of 1 "numeral b", where ?'a = rat] by simp

lemmas rd_eval = round_double_def round_mag_def quantum_def ilog2_def pow2_def
  round_half_even_def bitlen_numeral bitlen_one floor_rat_numeral_div floor_rat_one_div

lemma lit_0_1_value: "lit_0_1 = Fin (3602879701896397 / 36028797018963968)"
  unfolding lit_0_1_def by (simp add: rd_eval)

section \<open>The rounding is monotone\<close>

lemma pow2_powi: "pow2 e = 2 powi e"
  by (simp add: pow2_def power_int_def inverse_eq_divide power_one_over)


lemma pow2_add: "pow2 (a + b) = pow2 a * pow2 b"
  by (simp add: pow2_powi power_int_add)




lemma pow2_Suc: "pow2 (e + 1) = 2 * pow2 e"
  using pow2_add [of e 1] by (simp add: pow2_def)


















section \<open>Requests sent over the channel\<close>

lemma voice_request_well_formed:
  "trim t \<noteq> [] \<Longrightarrow>
   well_formed_request [(''type'', ''voice_request''), (''text'', trim t), (''character_id'', c)]"
  by (simp add: well_formed_request_def trim_idem)

lemma generateSpeech_sent:
  "sent (generateSpeech s) = sent s @
     (if trim (inputText s) = [] \<or> ws s \<noteq> Some OPEN then []
      else [[(''type'', ''voice_request''), (''text'', trim (inputText s)),
             (''character_id'', selectedCharacter s)]])"
  by (simp add: generateSpeech_def)

lemma studio_step_well_formed:
  assumes "requests_well_formed s"
  shows "requests_well_formed (studio_step s e)"
proof (cases e)
  case GenerateSpeech
  then show ?thesis
    using assms voice_request_well_formed [of "inputText s" "selectedCharacter s"]
    by (simp add: requests_well_formed_def generateSpeech_def)
next
  case (CharacterChange c)
  then show ?thesis
    using assms
    by (simp add: requests_well_formed_def handleCharacterChange_def Let_def is_voice_request_def)
qed (use assms in \<open>simp_all add: requests_well_formed_def setText_def onopen_def
       onVoiceResponse_def onerror_def onclose_def\<close>)

lemma studio_run_well_formed: "requests_well_formed (studio_run es)"
proof (induction es rule: rev_induct)
  case Nil
  show ?case by (simp add: studio_run_def studio_init_def requests_well_formed_def)
next
  case (snoc e es)
  then show ?case
    using studio_step_well_formed [of "studio_run es" e] by (simp add: studio_run_def)
qed

text \<open>
  C4. Whatever the user and the socket do, every \<open>voice_request\<close> object the studio
  has sent has exactly the keys \<open>type\<close>, \<open>text\<close> and \<open>character_id\<close> and a text that
  is trimmed and non-empty. \<open>generateSpeech\<close> sends nothing when the trimmed text is
  empty or the socket is not open, and otherwise sends one request carrying the trimmed
  text and the character selected at that moment.
\<close>

theorem voice_request_shape:
  "requests_well_formed (studio_run es) \<and>
   sent (generateSpeech s) = sent s @
     (if trim (inputText s) = [] \<or> ws s \<noteq> Some OPEN then []
      else [[(''type'', ''voice_request''), (''text'', trim (inputText s)),
             (''character_id'', selectedCharacter s)]])"
  using studio_run_well_formed generateSpeech_sent by blast

theorem voice_request_shape_witness:
  "requests_well_formed
     (studio_run [SocketOpen, SetText ''  Hello '', CharacterChange ''hero'', GenerateSpeech]) \<and>
   sent (generateSpeech (studio_run [SocketOpen, SetText ''  Hello '', CharacterChange ''hero''])) =
     [[(''type'', ''character_switch''), (''character_id'', ''hero'')],
      [(''type'', ''voice_request''), (''text'', ''Hello''), (''character_id'', ''hero'')]] \<and>
   sent (generateSpeech (studio_run [SetText ''Hello'', CharacterChange ''hero''])) = [] \<and>
   sent (generateSpeech (studio_run [SocketOpen, SetText ''   ''])) = []"
  using voice_request_shape
    [of "[SocketOpen, SetText ''  Hello '', CharacterChange ''hero'', GenerateSpeech]"
        "studio_run [SocketOpen, SetText ''  Hello '', CharacterChange ''hero'']"]
  by (simp add: studio_run_def studio_init_def setText_def onopen_def handleCharacterChange_def
      generateSpeech_def trim_def is_ws_def)

section \<open>The time formatter\<close>

lemma digits10_small: "n < 10 \<Longrightarrow> digits10 n = [digit_char n]"
  by simp










section \<open>The invariant of the player\<close>

lemma clearSimulation_inv_intervals:
  assumes "map fst (intervals s) = ref_timers (simulationIntervalRef s)"
  shows "intervals (clearSimulation s) = []"
proof (cases "simulationIntervalRef s")
  case None
  with assms show ?thesis by (simp add: clearSimulation_def ref_timers_def)
next
  case (Some t)
  with assms have "map fst (intervals s) = [t]" by (simp add: ref_timers_def)
  then obtain p where "intervals s = [(t, p)]" by (cases "intervals s") auto
  with Some show ?thesis by (simp add: clearSimulation_def clearInterval_def)
qed

lemma clearSimulation_fields:
  "simulationIntervalRef (clearSimulation s) = None"
  "audioRef (clearSimulation s) = audioRef s"
  "audioUrl (clearSimulation s) = audioUrl s"
  "isLoading (clearSimulation s) = isLoading s"
  "isPlaying (clearSimulation s) = isPlaying s"
  "duration (clearSimulation s) = duration s"
  "currentTime (clearSimulation s) = currentTime s"
  "audioError (clearSimulation s) = audioError s"
  "isLoadingAudio (clearSimulation s) = isLoadingAudio s"
  "audioTested (clearSimulation s) = audioTested s"
  "volume (clearSimulation s) = volume s"
  "playPromiseRef (clearSimulation s) = playPromiseRef s"
  "nextTimer (clearSimulation s) = nextTimer s"
  "network (clearSimulation s) = network s"
  by (simp_all add: clearSimulation_def clearInterval_def split: option.splits)

lemma clearSimulation_inv:
  assumes "player_inv s"
  shows "player_inv (clearSimulation s)"
  using assms clearSimulation_inv_intervals [of s]
  by (simp add: player_inv_def clearSimulation_fields ref_timers_def)

lemma stopCurrentPlayback_inv:
  assumes "player_inv s"
  shows "player_inv (stopCurrentPlayback s)"
  using clearSimulation_inv [OF assms]
  by (auto simp: stopCurrentPlayback_def Let_def player_inv_def split: option.splits)

lemma playPlaceholderAudio_inv:
  assumes "player_inv s" "isPlaceholderUrl (url_or_empty (audioUrl s))"
  shows "player_inv (playPlaceholderAudio s)"
proof (cases "simulationIntervalRef s")
  case None
  with assms show ?thesis
    by (auto simp: playPlaceholderAudio_def Let_def player_inv_def ref_timers_def)
next
  case (Some t)
  with assms have "map fst (intervals s) = [t]" by (simp add: player_inv_def ref_timers_def)
  then obtain p where "intervals s = [(t, p)]" by (cases "intervals s") auto
  with Some assms show ?thesis
    by (auto simp: playPlaceholderAudio_def Let_def player_inv_def ref_timers_def clearInterval_def)
qed

lemma togglePlay_catch_inv: "player_inv s \<Longrightarrow> player_inv (togglePlay_catch err s)"
  by (simp add: togglePlay_catch_def player_inv_def)

lemma playReal_inv:
  assumes "player_inv s" "audioRef s = Some m"
  shows "player_inv (playReal url m lr pr s)"
  using assms
  by (auto simp: playReal_def assignSrc_def Let_def player_inv_def togglePlay_catch_def
      split: option.splits play_result.splits)

lemma togglePlay_inv:
  assumes "player_inv s"
  shows "player_inv (togglePlay lr pr s)"
proof -
  have 1: "player_inv (s\<lparr>audioError := e\<rparr>)" for e
    using assms by (simp add: player_inv_def)
  show ?thesis
    using 1 [of None] 1 [of "Some ''No audio URL available''"]
      stopCurrentPlayback_inv [of "s\<lparr>audioError := None\<rparr>"]
      playPlaceholderAudio_inv [of "s\<lparr>audioError := None\<rparr>"]
      playReal_inv [of "s\<lparr>audioError := None\<rparr>"]
    by (auto simp: togglePlay_def Let_def split: option.splits)
qed

lemma tick_inv:
  assumes "player_inv s"
  shows "player_inv (tick t s)"
proof (cases "map_of (intervals s) t")
  case None
  then show ?thesis using assms by (simp add: tick_def)
next
  case (Some p)
  let ?s1 = "s\<lparr>intervals := map (\<lambda>(i, q). if i = t then (i, jsadd p lit_0_1) else (i, q)) (intervals s),
                 currentTime := jsadd p lit_0_1\<rparr>"
  have fst: "map fst (intervals ?s1) = map fst (intervals s)"
    by (induction "intervals s") (auto split: prod.splits)
  have inv1: "player_inv (?s1\<lparr>isPlaying := b, currentTime := c\<rparr>)" for b c
    using assms fst by (auto simp: player_inv_def)
  have inv2: "player_inv ?s1"
    using assms fst by (auto simp: player_inv_def)
  show ?thesis
    using Some inv2 clearSimulation_inv [OF inv1]
    by (simp add: tick_def Let_def)
qed


lemma render_audio_inv:
  assumes "map fst (intervals s) = ref_timers (simulationIntervalRef s)"
    and "intervals s = [] \<or> url_truthy (audioUrl s) \<and> isPlaceholderUrl (url_or_empty (audioUrl s))"
  shows "player_inv (render_audio s)"
  using assms by (auto simp: render_audio_def player_inv_def split: option.splits)

lemma resetOnUrlChange_intervals:
  assumes "map fst (intervals s) = ref_timers (simulationIntervalRef s)"
  shows "intervals (resetOnUrlChange s) = []" "simulationIntervalRef (resetOnUrlChange s) = None"
proof -
  let ?s1 = "s\<lparr>isPlaying := False, currentTime := Fin 0, duration := Fin 0, audioError := None,
                 audioTested := False, isLoadingAudio := False\<rparr>"
  have "intervals (clearSimulation ?s1) = []"
    using assms by (intro clearSimulation_inv_intervals) simp
  then show "intervals (resetOnUrlChange s) = []"
    by (simp add: resetOnUrlChange_def Let_def split: option.splits)
  show "simulationIntervalRef (resetOnUrlChange s) = None"
    by (simp add: resetOnUrlChange_def Let_def clearSimulation_fields split: option.splits)
qed

lemma resetOnUrlChange_fields:
  "audioUrl (resetOnUrlChange s) = audioUrl s"
  "isLoading (resetOnUrlChange s) = isLoading s"
  "isPlaying (resetOnUrlChange s) = False"
  "currentTime (resetOnUrlChange s) = Fin 0"
  "duration (resetOnUrlChange s) = Fin 0"
  "audioError (resetOnUrlChange s) = None"
  "audioTested (resetOnUrlChange s) = False"
  "isLoadingAudio (resetOnUrlChange s) = False"
  "playPromiseRef (resetOnUrlChange s) = False"
  "volume (resetOnUrlChange s) = volume s"
  "network (resetOnUrlChange s) = network s"
  "audioRef (resetOnUrlChange s) = map_option (\<lambda>m. m\<lparr>m_paused := True, m_currentTime := Fin 0\<rparr>) (audioRef s)"
  by (simp_all add: resetOnUrlChange_def Let_def clearSimulation_fields split: option.splits)

lemma testEffect_fields:
  "audioUrl (testEffect fr s) = audioUrl s"
  "isLoading (testEffect fr s) = isLoading s"
  "isPlaying (testEffect fr s) = isPlaying s"
  "currentTime (testEffect fr s) = currentTime s"
  "duration (testEffect fr s) = duration s"
  "isLoadingAudio (testEffect fr s) = isLoadingAudio s"
  "playPromiseRef (testEffect fr s) = playPromiseRef s"
  "volume (testEffect fr s) = volume s"
  "audioRef (testEffect fr s) = audioRef s"
  "simulationIntervalRef (testEffect fr s) = simulationIntervalRef s"
  "intervals (testEffect fr s) = intervals s"
  "nextTimer (testEffect fr s) = nextTimer s"
  by (simp_all add: testEffect_def testAudioUrl_def Let_def split: fetch_result.splits)

lemma testEffect_inv: "player_inv (testEffect fr s) = player_inv s"
  by (simp add: player_inv_def testEffect_fields)

lemma resetOnUrlChange_inv:
  assumes "map fst (intervals s) = ref_timers (simulationIntervalRef s)"
    and "audioRef s = None \<or> url_truthy (audioUrl s) \<and> \<not> isPlaceholderUrl (url_or_empty (audioUrl s))"
  shows "player_inv (resetOnUrlChange s)"
  using assms(2) resetOnUrlChange_intervals [OF assms(1)]
  by (auto simp: player_inv_def resetOnUrlChange_fields ref_timers_def)

lemma render_audio_fields:
  "intervals (render_audio s) = intervals s"
  "simulationIntervalRef (render_audio s) = simulationIntervalRef s"
  "audioUrl (render_audio s) = audioUrl s"
  "audioRef (render_audio s) = None \<or>
     url_truthy (audioUrl s) \<and> \<not> isPlaceholderUrl (url_or_empty (audioUrl s))"
  by (auto simp: render_audio_def split: option.splits)

lemma setProps_inv:
  assumes "player_inv s"
  shows "player_inv (setProps url loading fr s)"
proof (cases "url = audioUrl s")
  case True
  have "player_inv (render_audio (s\<lparr>audioUrl := url, isLoading := loading\<rparr>))"
    using assms True by (intro render_audio_inv) (auto simp: player_inv_def)
  with True show ?thesis by (simp add: setProps_def Let_def testEffect_inv)
next
  case False
  let ?r = "render_audio (s\<lparr>audioUrl := url, isLoading := loading\<rparr>)"
  have "player_inv (resetOnUrlChange ?r)"
    using assms render_audio_fields(4) [of "s\<lparr>audioUrl := url, isLoading := loading\<rparr>"]
    by (intro resetOnUrlChange_inv) (auto simp: render_audio_fields player_inv_def)
  with False show ?thesis by (simp add: setProps_def Let_def testEffect_inv)
qed

lemma player_step_inv:
  assumes "player_inv s"
  shows "player_inv (player_step s e)"
proof (cases e)
  case (SetProps url loading fr)
  then show ?thesis using setProps_inv [OF assms] by simp
next
  case (TogglePlay lr pr)
  then show ?thesis using togglePlay_inv [OF assms] by simp
next
  case (Tick t)
  then show ?thesis using tick_inv [OF assms] by simp
next
  case (TimeUpdate pos)
  then show ?thesis
    using assms by (auto simp: handleTimeUpdate_def mediaAt_def player_inv_def split: option.splits)
next
  case (LoadedMetadata d)
  then show ?thesis
    using assms by (auto simp: handleLoadedMetadata_def player_inv_def split: option.splits)
next
  case Ended
  have "player_inv ((mediaPause s)\<lparr>isPlaying := False, currentTime := Fin 0, playPromiseRef := False\<rparr>)"
    using assms by (auto simp: mediaPause_def player_inv_def)
  with Ended show ?thesis using clearSimulation_inv by (simp add: handleEnded_def)
next
  case (AudioError err)
  then show ?thesis using assms by (simp add: handleAudioError_def player_inv_def)
next
  case (Seek x l w)
  then show ?thesis
    using assms by (auto simp: handleSeek_def Let_def player_inv_def split: option.splits)
next
  case (VolumeChange v)
  then show ?thesis
    using assms by (auto simp: handleVolumeChange_def player_inv_def)
qed

lemma player_run_inv: "player_inv (player_run es)"
proof (induction es rule: rev_induct)
  case Nil
  show ?case by (simp add: player_run_def player_init_def player_inv_def ref_timers_def)
next
  case (snoc e es)
  then show ?case using player_step_inv [of "player_run es" e] by (simp add: player_run_def)
qed



lemmas player_eval = player_run_def player_init_def setProps_def render_audio_def
  resetOnUrlChange_def clearSimulation_def clearInterval_def testEffect_def testAudioUrl_def
  togglePlay_def playPlaceholderAudio_def stopCurrentPlayback_def playReal_def assignSrc_def
  togglePlay_catch_def new_media_def url_truthy_def url_or_empty_def isPlaceholderUrl_def
  isMurfUrl_def handleAudioError_def handleSeek_def handleLoadedMetadata_def handleTimeUpdate_def
  handleEnded_def handleVolumeChange_def mediaAt_def mediaPause_def drivers_def mediaPlaying_def
  unmount_def

section \<open>One driver of the elapsed time\<close>




section \<open>A new audio reference\<close>







section \<open>Seeking on a fallback reference\<close>

lemma old_render_mock:
  assumes "isMockUrl (url_or_empty url)"
  shows "old_audioRef (old_setProps url loading s) = None"
  using assms by (simp add: old_setProps_def Let_def old_render_audio_def old_resetOnUrlChange_def)

text \<open>
  C5. For a URL recognised as a placeholder, \<open>handleSeek\<close> returns the state it was
  given, whatever that state is: neither the elapsed time nor any position of an
  element changes. In the earlier player a mock URL leaves the element unrendered, and
  \<open>handleSeek\<close> returns the rendered state unchanged.
\<close>

theorem fallback_seek_noop:
  "(isPlaceholderUrl (url_or_empty (audioUrl s)) \<longrightarrow> handleSeek clientX left width s = s) \<and>
   (isMockUrl (url_or_empty url) \<longrightarrow>
      old_handleSeek clientX left width (old_setProps url loading o_s) = old_setProps url loading o_s)"
  using old_render_mock [of url loading o_s]
  by (auto simp: handleSeek_def old_handleSeek_def split: option.splits)

theorem fallback_seek_noop_witness:
  "isPlaceholderUrl ''fallback_1'' \<and>
   handleSeek (Fin 50) (Fin 0) (Fin 100)
     (player_run [SetProps (Some ''fallback_1'') False FetchOk, TogglePlay CanPlay PlayResolved]) =
   player_run [SetProps (Some ''fallback_1'') False FetchOk, TogglePlay CanPlay PlayResolved] \<and>
   isMockUrl ''placeholder_1'' \<and>
   old_handleSeek (Fin 50) (Fin 0) (Fin 100) (old_setProps (Some ''placeholder_1'') False old_init) =
   old_setProps (Some ''placeholder_1'') False old_init"
  using fallback_seek_noop [of
      "player_run [SetProps (Some ''fallback_1'') False FetchOk, TogglePlay CanPlay PlayResolved]"
      "Fin 50" "Fin 0" "Fin 100" "Some ''placeholder_1''" False old_init]
  by (simp add: player_eval Let_def isMockUrl_def)

section \<open>The error handlers\<close>

lemma retry_after_error:
  assumes "audioRef s = Some m" "url_truthy (audioUrl s)"
    "\<not> isPlaceholderUrl (url_or_empty (audioUrl s))"
  shows "isPlaying (togglePlay CanPlay PlayResolved (handleAudioError e s))"
    "audioError (togglePlay CanPlay PlayResolved (handleAudioError e s)) = None"
    "isPlaying (togglePlay CanPlay PlayResolved (togglePlay_catch err s))"
    "audioError (togglePlay CanPlay PlayResolved (togglePlay_catch err s)) = None"
  using assms
  by (simp_all add: togglePlay_def playReal_def assignSrc_def handleAudioError_def
      togglePlay_catch_def Let_def)

text \<open>
  C8. The \<open>error\<close> handler of the element and the \<open>catch\<close> block of \<open>togglePlay\<close>
  change four things only: the playing flag, the loading flag, the pending \<open>play()\<close>
  and the error message. Every other field of the player, its network log included, is
  as before, and so is the whole state of the studio: the socket, what was sent, the last
  result. The error is not sticky: on a mounted element of a real URL the next
  \<open>togglePlay\<close> that loads and plays clears the message and plays.
\<close>

theorem error_handlers_frame:
  "handleAudioError e s =
     s\<lparr>isPlaying := False, isLoadingAudio := False, playPromiseRef := False,
       audioError := audioError (handleAudioError e s)\<rparr> \<and>
   togglePlay_catch err s =
     s\<lparr>isPlaying := False, isLoadingAudio := False, playPromiseRef := False,
       audioError := audioError (togglePlay_catch err s)\<rparr> \<and>
   app_studio (app_player_event (AudioError e) a) = app_studio a \<and>
   network (app_player (app_player_event (AudioError e) a)) = network (app_player a) \<and>
   audioUrl (app_player (app_player_event (AudioError e) a)) = audioUrl (app_player a) \<and>
   app_studio (app_player_event (TogglePlay lr pr) a) = app_studio a \<and>
   (audioRef s \<noteq> None \<and> url_truthy (audioUrl s) \<and>
    \<not> isPlaceholderUrl (url_or_empty (audioUrl s)) \<longrightarrow>
      isPlaying (togglePlay CanPlay PlayResolved (handleAudioError e s)) \<and>
      audioError (togglePlay CanPlay PlayResolved (handleAudioError e s)) = None \<and>
      isPlaying (togglePlay CanPlay PlayResolved (togglePlay_catch err s)) \<and>
      audioError (togglePlay CanPlay PlayResolved (togglePlay_catch err s)) = None)"
proof -
  have "isPlaying (togglePlay CanPlay PlayResolved (handleAudioError e s)) \<and>
      audioError (togglePlay CanPlay PlayResolved (handleAudioError e s)) = None \<and>
      isPlaying (togglePlay CanPlay PlayResolved (togglePlay_catch err s)) \<and>
      audioError (togglePlay CanPlay PlayResolved (togglePlay_catch err s)) = None"
    if "audioRef s \<noteq> None" "url_truthy (audioUrl s)"
      "\<not> isPlaceholderUrl (url_or_empty (audioUrl s))"
  proof -
    from that(1) obtain m where "audioRef s = Some m" by auto
    from retry_after_error [OF this that(2,3)] show ?thesis by simp
  qed
  then show ?thesis
    by (simp add: handleAudioError_def togglePlay_catch_def app_player_event_def)
qed

theorem error_handlers_frame_witness:
  "app_studio (app_player_event (AudioError (Some (3, [])))
      (app_studio_event (VoiceResponse \<lparr>audio_url = ''http://h/a.mp3'', character_id = ''hero'',
         result_text = ''Hi''\<rparr>) FetchOk app_init)) =
   studio_init\<lparr>lastResult := Some \<lparr>audio_url = ''http://h/a.mp3'', character_id = ''hero'',
         result_text = ''Hi''\<rparr>\<rparr> \<and>
   audioError (player_run [SetProps (Some ''http://h/a.mp3'') False FetchOk, AudioError (Some (3, []))])
     = Some ''Audio file is corrupted or invalid format'' \<and>
   isPlaying (player_run [SetProps (Some ''http://h/a.mp3'') False FetchOk, AudioError (Some (3, [])),
     TogglePlay CanPlay PlayResolved])"
  using error_handlers_frame [of "Some (3, [])"
      "player_run [SetProps (Some ''http://h/a.mp3'') False FetchOk]" NonError
      "app_studio_event (VoiceResponse \<lparr>audio_url = ''http://h/a.mp3'', character_id = ''hero'',
         result_text = ''Hi''\<rparr>) FetchOk app_init" CanPlay PlayResolved]
  by (simp add: player_eval Let_def app_studio_event_def app_init_def onVoiceResponse_def
      studio_init_def)

section \<open>The reasons of playback errors\<close>

lemma spec_reason_media_codes:
  "spec_reason (audioErrorMessage (Some (1, msg))) = Some Aborted"
  "spec_reason (audioErrorMessage (Some (2, msg))) = Some Network"
  "spec_reason (audioErrorMessage (Some (3, msg))) = Some Decode"
  "spec_reason (audioErrorMessage (Some (4, msg))) = Some Unsupported"
  by (simp_all add: spec_reason_def)

lemma spec_reason_timeout:
  "spec_reason (catchMessage (JsError ''Error'' ''Audio load timeout'')) = Some Timeout"
  by (simp add: spec_reason_def toLowerCase_def toLowerChar_def)






section \<open>The two players on fallback references\<close>







section \<open>Simulated playback of a fallback reference\<close>

text \<open>
  The sums of the interval callback are evaluated exactly, one binary64 addition after
  the other.
\<close>

lemma progress_after_Suc: "progress_after (Suc n) p = jsadd (progress_after n p) lit_0_1"
  by (induction n arbitrary: p) simp_all

lemma keeps_running_below:
  "keeps_running n p \<Longrightarrow> 1 \<le> k \<Longrightarrow> k \<le> n \<Longrightarrow> \<not> jsge (progress_after k p) (Fin 5)"
proof (induction n arbitrary: p k)
  case 0
  then show ?case by simp
next
  case (Suc n)
  from Suc.prems(2) obtain j where k: "k = Suc j" by (cases k) auto
  show ?case
  proof (cases j)
    case 0
    with k Suc.prems(1) show ?thesis by simp
  next
    case (Suc i)
    with k Suc.prems have "keeps_running n (jsadd p lit_0_1)" "1 \<le> j" "j \<le> n" by auto
    from Suc.IH [OF this] k show ?thesis by simp
  qed
qed

lemma keeps_running_mono: "keeps_running n p \<Longrightarrow> k \<le> n \<Longrightarrow> keeps_running k p"
proof (induction n arbitrary: p k)
  case 0
  then show ?case by simp
next
  case (Suc n)
  show ?case
  proof (cases k)
    case 0
    then show ?thesis by simp
  next
    case (Suc j)
    with Suc.prems Suc.IH [of "jsadd p lit_0_1" j] show ?thesis by simp
  qed
qed

lemma simulation_step:
  "jsadd p lit_0_1 = p' \<Longrightarrow>
   (keeps_running (numeral k) p \<and> progress_after (numeral k) p = r) =
   (\<not> jsge p' (Fin 5) \<and> keeps_running (pred_numeral k) p' \<and> progress_after (pred_numeral k) p' = r)"
  by (auto simp: numeral_eq_Suc)

lemma simulation_50:
  "keeps_running 50 (Fin 0) \<and>
   progress_after 50 (Fin 0) = Fin (2814749767106559 / 562949953421312)"
  by (simp add: simulation_step lit_0_1_value rd_eval)

lemma simulation_51:
  "progress_after 51 (Fin 0) = Fin (1435522381224345 / 281474976710656)"
proof -
  have "progress_after 51 (Fin 0) = jsadd (progress_after 50 (Fin 0)) lit_0_1"
    using progress_after_Suc [of 50 "Fin 0"] by simp
  then show ?thesis by (simp add: simulation_50 lit_0_1_value rd_eval)
qed

lemma tick_running:
  assumes "intervals s = [(t, p)]" "\<not> jsge (jsadd p lit_0_1) (Fin 5)"
  shows "tick t s = s\<lparr>intervals := [(t, jsadd p lit_0_1)], currentTime := jsadd p lit_0_1\<rparr>"
  using assms by (simp add: tick_def Let_def)

lemma tick_ending:
  assumes "intervals s = [(t, p)]" "simulationIntervalRef s = Some t"
    "jsge (jsadd p lit_0_1) (Fin 5)"
  shows "tick t s = s\<lparr>intervals := [], currentTime := Fin 0, isPlaying := False,
    simulationIntervalRef := None\<rparr>"
  using assms by (simp add: tick_def Let_def clearSimulation_def clearInterval_def)

lemma ticks_running:
  assumes "intervals s = [(t, p)]" "keeps_running n p" "0 < n"
  shows "(tick t ^^ n) s =
    s\<lparr>intervals := [(t, progress_after n p)], currentTime := progress_after n p\<rparr>"
  using assms
proof (induction n)
  case 0
  then show ?case by simp
next
  case (Suc n)
  have below: "\<not> jsge (jsadd (progress_after n p) lit_0_1) (Fin 5)"
    using keeps_running_below [OF Suc.prems(2), of "Suc n"]
    by (simp add: progress_after_Suc del: progress_after.simps)
  show ?case
  proof (cases "n = 0")
    case True
    with Suc.prems(1) below show ?thesis
      by (simp add: tick_running)
  next
    case False
    then have "0 < n" by simp
    moreover have "keeps_running n p"
      using keeps_running_mono [OF Suc.prems(2), of n] by simp
    ultimately have ih: "(tick t ^^ n) s =
        s\<lparr>intervals := [(t, progress_after n p)], currentTime := progress_after n p\<rparr>"
      using Suc.IH Suc.prems(1) by blast
    have "tick t ((tick t ^^ n) s) =
        ((tick t ^^ n) s)\<lparr>intervals := [(t, jsadd (progress_after n p) lit_0_1)],
          currentTime := jsadd (progress_after n p) lit_0_1\<rparr>"
      using below by (intro tick_running) (simp_all add: ih)
    then show ?thesis by (simp add: ih progress_after_Suc del: progress_after.simps)
  qed
qed

lemma start_placeholder:
  assumes "player_inv s" "url_truthy (audioUrl s)"
    "isPlaceholderUrl (url_or_empty (audioUrl s))" "\<not> isPlaying s"
  shows "togglePlay lr pr s =
    s\<lparr>audioError := None, isLoadingAudio := False, isPlaying := True, duration := Fin 5,
      intervals := [(nextTimer s, Fin 0)], simulationIntervalRef := Some (nextTimer s),
      nextTimer := Suc (nextTimer s)\<rparr>"
proof (cases "simulationIntervalRef s")
  case None
  with assms have "intervals s = []" by (simp add: player_inv_def ref_timers_def)
  with None assms show ?thesis
    by (simp add: togglePlay_def playPlaceholderAudio_def Let_def)
next
  case (Some t)
  with assms have "map fst (intervals s) = [t]" by (simp add: player_inv_def ref_timers_def)
  then obtain p where "intervals s = [(t, p)]" by (cases "intervals s") auto
  with Some assms show ?thesis
    by (simp add: togglePlay_def playPlaceholderAudio_def Let_def clearInterval_def)
qed


lemma placeholder_no_network:
  assumes "isPlaceholderUrl (url_or_empty url)"
  shows "network (setProps url loading fr s) = network s"
  using assms
  by (auto simp: setProps_def Let_def testEffect_def render_audio_def resetOnUrlChange_fields)

text \<open>
  C2. A reference recognised as a placeholder causes no request, neither when it arrives
  nor later. Starting playback on it, whatever the browser would answer to a load or a
  \<open>play()\<close>, leaves the player not loading and playing, with the duration 5 and one
  interval whose \<open>progress\<close> is 0. Every callback adds the binary64 value of \<open>0.1\<close>:
  after \<open>n\<close> callbacks, \<open>n\<close> from 1 to 50, the elapsed time is the \<open>n\<close>-fold sum,
  still below the duration, and nothing else has changed. The 51st sum is the first one
  that has reached the duration (in binary64 the 50th is just below 5), and that callback
  ends the playback: not playing, elapsed time 0, the interval cleared.
\<close>

theorem placeholder_playback:
  "(isPlaceholderUrl (url_or_empty url) \<longrightarrow> network (setProps url loading fr s) = network s) \<and>
   (player_inv s \<and> url_truthy (audioUrl s) \<and> isPlaceholderUrl (url_or_empty (audioUrl s)) \<and>
    \<not> isPlaying s \<longrightarrow>
      togglePlay lr pr s =
        s\<lparr>audioError := None, isLoadingAudio := False, isPlaying := True, duration := Fin 5,
          intervals := [(nextTimer s, Fin 0)], simulationIntervalRef := Some (nextTimer s),
          nextTimer := Suc (nextTimer s)\<rparr> \<and>
      (\<forall>n. 1 \<le> n \<and> n \<le> 50 \<longrightarrow>
         (tick (nextTimer s) ^^ n) (togglePlay lr pr s) =
           (togglePlay lr pr s)\<lparr>intervals := [(nextTimer s, progress_after n (Fin 0))],
              currentTime := progress_after n (Fin 0)\<rparr> \<and>
         \<not> jsge (progress_after n (Fin 0)) (Fin 5)) \<and>
      jsge (progress_after 51 (Fin 0)) (Fin 5) \<and>
      (tick (nextTimer s) ^^ 51) (togglePlay lr pr s) =
        (togglePlay lr pr s)\<lparr>intervals := [], currentTime := Fin 0, isPlaying := False,
           simulationIntervalRef := None\<rparr>)"
proof -
  have A: "isPlaceholderUrl (url_or_empty url) \<longrightarrow> network (setProps url loading fr s) = network s"
    using placeholder_no_network by blast
  have B: "togglePlay lr pr s =
        s\<lparr>audioError := None, isLoadingAudio := False, isPlaying := True, duration := Fin 5,
          intervals := [(nextTimer s, Fin 0)], simulationIntervalRef := Some (nextTimer s),
          nextTimer := Suc (nextTimer s)\<rparr> \<and>
      (\<forall>n. 1 \<le> n \<and> n \<le> 50 \<longrightarrow>
         (tick (nextTimer s) ^^ n) (togglePlay lr pr s) =
           (togglePlay lr pr s)\<lparr>intervals := [(nextTimer s, progress_after n (Fin 0))],
              currentTime := progress_after n (Fin 0)\<rparr> \<and>
         \<not> jsge (progress_after n (Fin 0)) (Fin 5)) \<and>
      jsge (progress_after 51 (Fin 0)) (Fin 5) \<and>
      (tick (nextTimer s) ^^ 51) (togglePlay lr pr s) =
        (togglePlay lr pr s)\<lparr>intervals := [], currentTime := Fin 0, isPlaying := False,
           simulationIntervalRef := None\<rparr>"
    if h: "player_inv s" "url_truthy (audioUrl s)" "isPlaceholderUrl (url_or_empty (audioUrl s))"
      "\<not> isPlaying s"
  proof -
    let ?t = "nextTimer s"
    let ?s1 = "togglePlay lr pr s"
    note start = start_placeholder [OF h, of lr pr]
    have iv: "intervals ?s1 = [(?t, Fin 0)]" and rf: "simulationIntervalRef ?s1 = Some ?t"
      by (simp_all add: start)
    have kr: "keeps_running 50 (Fin 0)" using simulation_50 by simp
    have run: "(tick ?t ^^ n) ?s1 =
        ?s1\<lparr>intervals := [(?t, progress_after n (Fin 0))], currentTime := progress_after n (Fin 0)\<rparr> \<and>
        \<not> jsge (progress_after n (Fin 0)) (Fin 5)" if "1 \<le> n" "n \<le> 50" for n
      using ticks_running [OF iv keeps_running_mono [OF kr that(2)]] that(1)
        keeps_running_below [OF kr that]
      by simp
    have ge: "jsge (progress_after 51 (Fin 0)) (Fin 5)"
      by (simp add: simulation_51)
    have "(tick ?t ^^ 51) ?s1 = tick ?t ((tick ?t ^^ 50) ?s1)"
      using funpow.simps(2) [of 50 "tick ?t"] by simp
    also have "\<dots> = tick ?t (?s1\<lparr>intervals := [(?t, progress_after 50 (Fin 0))],
        currentTime := progress_after 50 (Fin 0)\<rparr>)"
      using run [of 50] by simp
    also have "\<dots> = ?s1\<lparr>intervals := [], currentTime := Fin 0, isPlaying := False,
           simulationIntervalRef := None\<rparr>"
    proof -
      have "jsge (jsadd (progress_after 50 (Fin 0)) lit_0_1) (Fin 5)"
        using ge progress_after_Suc [of 50 "Fin 0"] by simp
      then show ?thesis
        using rf by (subst tick_ending [where p = "progress_after 50 (Fin 0)"]) simp_all
    qed
    finally show ?thesis using start run ge by blast
  qed
  from A B show ?thesis by blast
qed


theorem placeholder_playback_witness:
  "isPlaying ((tick (nextTimer (player_run [SetProps (Some ''fallback_1'') False FetchOk])) ^^ 50)
      (togglePlay CanPlay PlayResolved (player_run [SetProps (Some ''fallback_1'') False FetchOk]))) \<and>
   currentTime ((tick (nextTimer (player_run [SetProps (Some ''fallback_1'') False FetchOk])) ^^ 50)
      (togglePlay CanPlay PlayResolved (player_run [SetProps (Some ''fallback_1'') False FetchOk]))) =
     Fin (2814749767106559 / 562949953421312) \<and>
   \<not> isPlaying ((tick (nextTimer (player_run [SetProps (Some ''fallback_1'') False FetchOk])) ^^ 51)
      (togglePlay CanPlay PlayResolved (player_run [SetProps (Some ''fallback_1'') False FetchOk]))) \<and>
   network ((tick (nextTimer (player_run [SetProps (Some ''fallback_1'') False FetchOk])) ^^ 51)
      (togglePlay CanPlay PlayResolved (player_run [SetProps (Some ''fallback_1'') False FetchOk]))) = []"
proof -
  let ?s = "player_run [SetProps (Some ''fallback_1'') False FetchOk]"
  have h: "player_inv ?s \<and> url_truthy (audioUrl ?s) \<and>
      isPlaceholderUrl (url_or_empty (audioUrl ?s)) \<and> \<not> isPlaying ?s"
    using player_run_inv [of "[SetProps (Some ''fallback_1'') False FetchOk]"]
    by (simp add: player_eval Let_def)
  have n: "network ?s = []"
    by (simp add: player_eval Let_def)
  from placeholder_playback [of "Some ''fallback_1''" False FetchOk ?s CanPlay PlayResolved] h
  have start: "togglePlay CanPlay PlayResolved ?s =
        ?s\<lparr>audioError := None, isLoadingAudio := False, isPlaying := True, duration := Fin 5,
          intervals := [(nextTimer ?s, Fin 0)], simulationIntervalRef := Some (nextTimer ?s),
          nextTimer := Suc (nextTimer ?s)\<rparr>"
    and run: "\<forall>n. 1 \<le> n \<and> n \<le> 50 \<longrightarrow>
         (tick (nextTimer ?s) ^^ n) (togglePlay CanPlay PlayResolved ?s) =
           (togglePlay CanPlay PlayResolved ?s)\<lparr>intervals := [(nextTimer ?s, progress_after n (Fin 0))],
              currentTime := progress_after n (Fin 0)\<rparr> \<and>
         \<not> jsge (progress_after n (Fin 0)) (Fin 5)"
    and fin: "(tick (nextTimer ?s) ^^ 51) (togglePlay CanPlay PlayResolved ?s) =
        (togglePlay CanPlay PlayResolved ?s)\<lparr>intervals := [], currentTime := Fin 0, isPlaying := False,
           simulationIntervalRef := None\<rparr>"
    by blast+
  from run have r50: "(tick (nextTimer ?s) ^^ 50) (togglePlay CanPlay PlayResolved ?s) =
           (togglePlay CanPlay PlayResolved ?s)\<lparr>intervals := [(nextTimer ?s, progress_after 50 (Fin 0))],
              currentTime := progress_after 50 (Fin 0)\<rparr>"
    by simp
  show ?thesis
    apply (simp only: r50 fin)
    apply (simp add: start simulation_50 n)
    done
qed

section \<open>Seeking on a real reference\<close>





end
